theory Spec2Isabelle
  imports Complex_Main "HOL-Library.Sublist" "HOL-Library.Multiset"
begin

chapter \<open>The model\<close>

text \<open>
  A shallow embedding of the detection and alerting core of the finance analyzer:
  \<^verbatim>\<open>core/stats.py\<close>, \<open>core/recurring.py\<close>, \<open>core/normalize.py\<close>, \<open>core/anomalies.py\<close>,
  \<open>core/engine.py\<close> and the parts of \<open>db/repo.py\<close> they call.

  Conventions of the whole development:
  \<^item> in the series detector a Python \<open>float\<close> is an exact \<open>real\<close>; the gap statistics it
    computes are integers and half-integers, which float64 represents exactly;
  \<^item> a naive \<open>datetime\<close> is an \<open>int\<close>, the number of microseconds (its resolution) since
    0001-01-01 00:00:00, the least value of the type; \<open>DATETIME_MAX\<close> is its greatest value
    and \<open>detect_recurring_py\<close> is the detector with the \<open>OverflowError\<close> that leaving the
    range raises;
  \<^item> Python's unbounded \<open>int\<close> is \<open>int\<close>; lengths and row ids are \<open>nat\<close>.
\<close>

section \<open>Python built-ins\<close>

text \<open>
  \<open>min(xs, key=f)\<close> walks the iterable once and replaces the current best only when the
  new key is strictly smaller, so the first element with the least key is returned.
\<close>

fun py_min_key_from :: "('a \<Rightarrow> 'k::linorder) \<Rightarrow> 'a \<Rightarrow> 'a list \<Rightarrow> 'a" where
  "py_min_key_from f best [] = best"
| "py_min_key_from f best (x # xs) = py_min_key_from f (if f x < f best then x else best) xs"

type_synonym datetime = int

definition DAY_US :: int where
  "DAY_US = 86400000000"

definition HOUR_US :: int where
  "HOUR_US = 3600000000"

text \<open>\<open>(b - a).days\<close>: a \<open>timedelta\<close> is normalised with a floored number of days.\<close>

definition timedelta_days :: "datetime \<Rightarrow> datetime \<Rightarrow> int" where
  "timedelta_days b a = (b - a) div DAY_US"

section \<open>Statistics primitives (\<open>core/stats.py\<close>)\<close>

text \<open>
  \<open>np.median\<close> of a non-empty array: the middle element of the sorted array, or the mean
  of the two middle elements when the length is even. The sources only call it on
  non-empty arrays (both callers test \<open>if x\<close> / \<open>if not x\<close> first).
\<close>

definition np_median :: "real list \<Rightarrow> real" where
  "np_median xs =
     (let s = sort xs; n = length xs
      in if n mod 2 = 1 then s ! (n div 2)
         else (s ! (n div 2 - 1) + s ! (n div 2)) / 2)"

definition median :: "real list \<Rightarrow> real" where
  "median x = (if x \<noteq> [] then np_median x else 0)"

definition mad_scaled :: "real list \<Rightarrow> real \<Rightarrow> real" where
  "mad_scaled x scale =
     (if x = [] then 0
      else let med = np_median x;
               val = np_median (map (\<lambda>a. \<bar>a - med\<bar>) x)
           in val * scale)"

text \<open>Every call in the sources leaves \<open>scale\<close> at its default, 1.4826.\<close>

definition mad :: "real list \<Rightarrow> real" where
  "mad x = mad_scaled x (14826 / 10000)"

definition robust_z :: "real \<Rightarrow> real \<Rightarrow> real \<Rightarrow> real" where
  "robust_z x med mad_val =
     (let denom = (if mad_val > 1 / 10 ^ 9 then mad_val else 1)
      in (x - med) / denom)"

section \<open>Recurring-series detector (\<open>core/recurring.py\<close>)\<close>

definition CANDIDATE_PERIODS :: "int list" where
  "CANDIDATE_PERIODS = [7, 14, 28, 30, 31, 365]"

record SeriesResult =
  period_days :: int
  amount_median :: real
  amount_mad :: real
  gap_median :: real
  gap_mad :: real
  confidence :: real
  next_expected_at :: datetime

definition nearest_period :: "real \<Rightarrow> int" where
  "nearest_period days =
     py_min_key_from (\<lambda>p. \<bar>real_of_int p - days\<bar>) (hd CANDIDATE_PERIODS) (tl CANDIDATE_PERIODS)"

text \<open>
  \<open>detect_recurring(dates, amounts, min_points)\<close>. \<open>zip\<close> stops at the shorter sequence,
  \<open>sorted(..., key=...)\<close> is stable, and \<open>None\<close> is the value \<open>None\<close>.
\<close>

definition detect_recurring :: "datetime list \<Rightarrow> real list \<Rightarrow> int \<Rightarrow> SeriesResult option" where
  "detect_recurring dates amounts min_points =
     (if int (length dates) < min_points then None
      else
        let pairs = sort_key fst (zip dates amounts);
            ds = map fst pairs;
            am = map snd pairs;
            gaps = map (\<lambda>i. timedelta_days (ds ! i) (ds ! (i - 1))) [1..<length ds]
        in if gaps = [] then None
           else
             let gap_med = median (map real_of_int gaps);
                 gap_mad = mad (map real_of_int gaps);
                 period = nearest_period gap_med;
                 tol = (if period \<in> set [7, 14, 28, 30, 31] then 3 else 10);
                 inliers = filter (\<lambda>g. \<bar>g - period\<bar> \<le> tol) gaps;
                 gap_consistency = real (length inliers) / real (max 1 (length gaps));
                 a_med = median am;
                 a_mad = mad am;
                 amt_stability = 1 / (1 + a_mad / max (1 / 10 ^ 6) (\<bar>a_med\<bar> + 1 / 10 ^ 6));
                 conf = max 0 (min 1 (55 / 100 * gap_consistency + 45 / 100 * amt_stability));
                 next_expected = last ds + period * DAY_US
             in Some \<lparr> period_days = period,
                       amount_median = a_med,
                       amount_mad = a_mad,
                       gap_median = gap_med,
                       gap_mad = gap_mad,
                       confidence = conf,
                       next_expected_at = next_expected \<rparr>)"

section \<open>Merchant normalisation (\<open>core/normalize.py\<close>)\<close>




















section \<open>The range of \<open>datetime\<close>\<close>




section \<open>Vocabulary of the stated properties\<close>

text \<open>
  The definitions of this section are not code: they write down, in the words of the
  specification, what the properties below compare the code with.
\<close>

subsection \<open>Series detection as the specification words it\<close>

text \<open>
  The consecutive whole-day gaps of the observations, taken in ascending order of
  timestamp; the candidate nearest to a value by absolute difference, the first-listed one
  among equals (\<open>first_least\<close>: the position of the first least key); the inlier tolerance;
  the fraction of gaps within tolerance; the amount stability; the clamp.
\<close>

fun consecutive_gaps :: "datetime list \<Rightarrow> int list" where
  "consecutive_gaps (a # b # ts) = timedelta_days b a # consecutive_gaps (b # ts)"
| "consecutive_gaps ts = []"

definition whole_day_gaps :: "(datetime \<times> real) list \<Rightarrow> int list" where
  "whole_day_gaps obs = consecutive_gaps (sort (map fst obs))"







subsection \<open>Monthly-spaced observations\<close>




chapter \<open>Properties\<close>

section \<open>Statistics\<close>

lemma sort_nth_mem:
  fixes xs :: "real list"
  assumes "i < length xs"
  shows "sort xs ! i \<in> set xs"
proof -
  from assms have "i < length (sort xs)" by simp
  then have "sort xs ! i \<in> set (sort xs)" by (rule nth_mem)
  then show ?thesis by simp
qed

lemma np_median_bounds:
  assumes "xs \<noteq> []"
  shows "Min (set xs) \<le> np_median xs" and "np_median xs \<le> Max (set xs)"
proof -
  let ?n = "length xs" and ?s = "sort xs"
  from assms have pos: "0 < ?n" by simp
  have in_range: "Min (set xs) \<le> ?s ! i \<and> ?s ! i \<le> Max (set xs)" if "i < ?n" for i
    using sort_nth_mem [OF that] by simp
  show "Min (set xs) \<le> np_median xs"
  proof (cases "?n mod 2 = 1")
    case True
    with pos in_range [of "?n div 2"] show ?thesis by (simp add: np_median_def Let_def)
  next
    case False
    with pos have "?n div 2 - 1 < ?n" "?n div 2 < ?n" by arith+
    with in_range [of "?n div 2 - 1"] in_range [of "?n div 2"] False
    show ?thesis by (simp add: np_median_def Let_def)
  qed
  show "np_median xs \<le> Max (set xs)"
  proof (cases "?n mod 2 = 1")
    case True
    with pos in_range [of "?n div 2"] show ?thesis by (simp add: np_median_def Let_def)
  next
    case False
    with pos have "?n div 2 - 1 < ?n" "?n div 2 < ?n" by arith+
    with in_range [of "?n div 2 - 1"] in_range [of "?n div 2"] False
    show ?thesis by (simp add: np_median_def Let_def)
  qed
qed

lemma np_median_const:
  assumes "xs \<noteq> []" and "\<forall>x\<in>set xs. x = c"
  shows "np_median xs = c"
proof -
  from assms have "set xs = {c}" by (cases xs) auto
  with np_median_bounds [OF assms(1)] show ?thesis by simp
qed


section \<open>Recurring-series detection\<close>

lemma map_fst_sort_key:
  fixes xs :: "(int \<times> real) list"
  shows "map fst (sort_key fst xs) = sort (map fst xs)"
proof -
  have "mset (map fst (sort_key fst xs)) = mset (map fst xs)" by simp
  moreover have "sorted (map fst (sort_key fst xs))" by (rule sorted_sort_key)
  ultimately show ?thesis by (rule properties_for_sort [symmetric])
qed

lemma index_gaps_eq:
  "map (\<lambda>i. timedelta_days (ds ! i) (ds ! (i - 1))) [1..<length ds] = consecutive_gaps ds"
proof (induction ds rule: consecutive_gaps.induct)
  case (1 a b ts)
  have upt: "[1..<length (a # b # ts)] = 1 # map Suc [1..<length (b # ts)]"
    by (simp add: upt_conv_Cons map_Suc_upt del: upt_Suc)
  have shift: "map (\<lambda>i. timedelta_days ((a # b # ts) ! Suc i) ((a # b # ts) ! (Suc i - 1))) [1..<length (b # ts)]
      = map (\<lambda>i. timedelta_days ((b # ts) ! i) ((b # ts) ! (i - 1))) [1..<length (b # ts)]"
    by (rule map_cong) (auto simp: nth_Cons split: nat.splits)
  show ?case
    unfolding upt using "1.IH" shift by (simp add: comp_def)
qed simp_all















text \<open>
  Claim C8. With fewer than \<open>min_points\<close> observations (the length test the code makes is on
  \<open>dates\<close>), \<open>detect_recurring\<close> returns \<open>None\<close>: the absence of a result is a value, and no
  error branch is reached.
\<close>

theorem detect_recurring_too_few_points:
  assumes "int (length dates) < min_points"
  shows "detect_recurring dates amounts min_points = None"
  using assms by (simp add: detect_recurring_def)

theorem detect_recurring_too_few_points_witness:
  "detect_recurring [0, 30 * DAY_US] [999 / 100, 999 / 100] 3 = None"
proof -
  have "int (length [0, 30 * DAY_US]) < 3" by simp
  then show ?thesis by (rule detect_recurring_too_few_points)
qed

section \<open>Monthly series\<close>

lemma consecutive_gaps_Nil_iff: "consecutive_gaps ts = [] \<longleftrightarrow> length ts < 2"
  by (cases ts rule: consecutive_gaps.cases) simp_all

lemma detect_recurring_unfold:
  fixes dates :: "datetime list" and amounts :: "real list" and mp :: int
  defines "gaps \<equiv> whole_day_gaps (zip dates amounts)"
    and "am \<equiv> map snd (sort_key fst (zip dates amounts))"
  defines "p \<equiv> nearest_period (median (map real_of_int gaps))"
  shows "detect_recurring dates amounts mp =
     (if int (length dates) < mp then None
      else if gaps = [] then None
      else Some \<lparr> period_days = p,
                  amount_median = median am,
                  amount_mad = mad am,
                  gap_median = median (map real_of_int gaps),
                  gap_mad = mad (map real_of_int gaps),
                  confidence = max 0 (min 1 (55 / 100 *
                      (real (length (filter (\<lambda>g. \<bar>g - p\<bar> \<le> (if p \<in> set [7, 14, 28, 30, 31] then 3 else 10)) gaps))
                        / real (max 1 (length gaps)))
                    + 45 / 100 * (1 / (1 + mad am / max (1 / 10 ^ 6) (\<bar>median am\<bar> + 1 / 10 ^ 6))))),
                  next_expected_at = last (sort (map fst (zip dates amounts))) + p * DAY_US \<rparr>)"
  unfolding p_def gaps_def am_def detect_recurring_def Let_def index_gaps_eq map_fst_sort_key
    whole_day_gaps_def
  by (rule refl)

lemma detect_recurring_returns:
  assumes "mp \<le> int (length dates)" and "2 \<le> length (zip dates amounts)"
  shows "\<exists>r. detect_recurring dates amounts mp = Some r"
proof -
  have "length (sort (map fst (zip dates amounts))) = length (zip dates amounts)" by simp
  with assms(2) have "whole_day_gaps (zip dates amounts) \<noteq> []"
    unfolding whole_day_gaps_def consecutive_gaps_Nil_iff by linarith
  moreover from assms(1) have "\<not> int (length dates) < mp" by simp
  ultimately show ?thesis by (simp only: detect_recurring_unfold if_False) blast
qed





















lemma median_replicate: "median (replicate (Suc n) a) = a"
  using np_median_const [of "replicate (Suc n) a" a] by (simp add: median_def)














section \<open>Merchant normalisation\<close>














end
